theory Spec2Isabelle
  imports Complex_Main "HOL-Library.Option_ord"
begin

section \<open>Data model\<close>

text \<open>
  The documented context snapshot entity (\<open>IContextSnapshot\<close>) with its three facets.
  Instants are milliseconds since the epoch, as \<open>Date.getTime()\<close> returns them; the
  JavaScript numbers of the scoring functions are modelled as exact reals.  The
  \<open>causality\<close> and \<open>memory\<close> groups are optional, as the source reads them through
  \<open>?.\<close>; \<open>None\<close> inside a group is the source's \<open>null\<close>.
\<close>

datatype ActionType = conversation | decision | file_edit | tool_use | research

datatype MemoryTier = ACTIVE | RECENT | ARCHIVED | EXPIRED

record CausalityMetadata =
  actionType :: "ActionType option"
  causedBy :: "string option"
  rationale :: "string option"

record MemoryMetadata =
  tier :: MemoryTier
  lastAccessed :: "int option"
  accessCount :: nat

text \<open>
  A property of a JavaScript object that may be missing.  The snapshot keeps its access
  data in the \<open>memory\<close> group; \<open>snapshot.lastAccessed\<close> and \<open>snapshot.accessCount\<close>,
  which the prediction score reads, are properties of the snapshot itself and are
  undefined on a snapshot that has only the group.
\<close>

datatype 'a property = Undefined | Defined 'a

record IContextSnapshot =
  id' :: string
  project :: string
  summary :: string
  timestamp :: int
  causality :: "CausalityMetadata option"
  memory :: "MemoryMetadata option"
  snapshot_lastAccessed :: "int option property"
  snapshot_accessCount :: "nat property"
  predictionScore :: "real option"
  lastPredicted :: "int option"
  propagationReasons :: "string list"

text \<open>A node of a causal chain, as \<open>buildCausalChain\<close> pushes it.\<close>

record CausalChainNode =
  snapshot :: IContextSnapshot
  depth :: nat
  causedBy' :: "string option"

section \<open>Repository\<close>

text \<open>
  The repository is the table \<open>context_snapshots\<close>: a list of rows in storage order.
  \<open>findById\<close> yields the first row with the id, or nothing.
\<close>

type_synonym repository = "IContextSnapshot list"

definition findById :: "repository \<Rightarrow> string \<Rightarrow> IContextSnapshot option" where
  "findById store i = find (\<lambda>s. id' s = i) store"

definition limitRows :: "nat option \<Rightarrow> 'a list \<Rightarrow> 'a list" where
  \<comment> \<open>An optional \<open>LIMIT\<close>: absent means every row.\<close>
  "limitRows limit xs = (case limit of None \<Rightarrow> xs | Some n \<Rightarrow> take n xs)"

definition findByProject :: "repository \<Rightarrow> string \<Rightarrow> nat option \<Rightarrow> IContextSnapshot list" where
  \<comment> \<open>Modelled from the spec: the body of \<open>findByProject(project, limit?)\<close> is not in the
      sources; the spec gives the rows of the project, most recent first, capped at the
      limit.\<close>
  "findByProject store proj limit =
     limitRows limit (sort_key (\<lambda>s. - timestamp s) (filter (\<lambda>s. project s = proj) store))"

section \<open>CausalityService\<close>

text \<open>
  \<open>snapshot.causality?.causedBy || null\<close>: an absent group, a \<open>null\<close> parent and the
  empty string all give \<open>null\<close>.
\<close>

definition parentId :: "IContextSnapshot \<Rightarrow> string option" where
  "parentId s =
     (case causality s of
        None \<Rightarrow> None
      | Some c \<Rightarrow> (case causedBy c of
                    None \<Rightarrow> None
                  | Some p \<Rightarrow> if p = [] then None else Some p))"

text \<open>
  The loop of \<open>buildCausalChain\<close>.  Its state is the visited set, the chain built so
  far, \<open>currentId\<close> and \<open>depth\<close>.  The guard \<open>currentId && !visited.has(currentId)\<close>
  is false for \<open>null\<close>, for the empty string and for a visited id; a failed lookup
  breaks out of the loop; \<open>unshift\<close> puts the node in front.
\<close>

function buildCausalChain_loop ::
  "repository \<Rightarrow> string set \<Rightarrow> CausalChainNode list \<Rightarrow> string option \<Rightarrow> nat
     \<Rightarrow> CausalChainNode list" where
  "buildCausalChain_loop store visited chain currentId d =
     (case currentId of
        None \<Rightarrow> chain
      | Some i \<Rightarrow>
          if i = [] \<or> i \<in> visited then chain
          else (case findById store i of
                  None \<Rightarrow> chain
                | Some s \<Rightarrow>
                    buildCausalChain_loop store (insert i visited)
                      (\<lparr>snapshot = s, depth = d, causedBy' = parentId s\<rparr> # chain)
                      (parentId s) (d + 1)))"
  by pat_completeness auto
termination
proof (relation "measure (\<lambda>(store, visited, chain, currentId, d).
                   card (id' ` set store - visited))")
  show "wf (measure (\<lambda>(store, visited, chain, currentId, d).
                   card (id' ` set store - visited)))"
    by simp
next
  fix store :: repository and visited :: "string set" and chain :: "CausalChainNode list"
    and currentId :: "string option" and d :: nat and i s
  assume cur: "currentId = Some i" and guard: "\<not> (i = [] \<or> i \<in> visited)"
    and found: "findById store i = Some s"
  from found have "i \<in> id' ` set store"
    unfolding findById_def by (auto simp: find_Some_iff)
  with guard have "id' ` set store - insert i visited \<subset> id' ` set store - visited"
    by auto
  then have "card (id' ` set store - insert i visited) < card (id' ` set store - visited)"
    by (intro psubset_card_mono) auto
  then show "((store, insert i visited,
               \<lparr>snapshot = s, depth = d, causedBy' = parentId s\<rparr> # chain, parentId s, d + 1),
              (store, visited, chain, currentId, d))
             \<in> measure (\<lambda>(store, visited, chain, currentId, d).
                   card (id' ` set store - visited))"
    by simp
qed

declare buildCausalChain_loop.simps [simp del]

definition buildCausalChain :: "repository \<Rightarrow> string \<Rightarrow> CausalChainNode list" where
  "buildCausalChain store snapshotId = buildCausalChain_loop store {} [] (Some snapshotId) 0"

text \<open>
  The sources hold a second, shorter copy of \<open>buildCausalChain\<close> (the example of the
  domain layer): the same walk with no visited set, each node pushed with
  \<open>depth: chain.length\<close> and no \<open>causedBy\<close> property.  Nothing bounds its loop, so it
  is a partial function: \<open>None\<close> stands for a call that never returns.
\<close>

partial_function (option) buildCausalChain_short_loop ::
  "repository \<Rightarrow> CausalChainNode list \<Rightarrow> string option \<Rightarrow> CausalChainNode list option" where
  "buildCausalChain_short_loop store chain currentId =
     (case currentId of
        None \<Rightarrow> Some chain
      | Some i \<Rightarrow>
          if i = [] then Some chain
          else (case findById store i of
                  None \<Rightarrow> Some chain
                | Some s \<Rightarrow>
                    buildCausalChain_short_loop store
                      (\<lparr>snapshot = s, depth = length chain, causedBy' = None\<rparr> # chain)
                      (parentId s)))"

definition buildCausalChain_short :: "repository \<Rightarrow> string \<Rightarrow> CausalChainNode list option" where
  "buildCausalChain_short store snapshotId =
     buildCausalChain_short_loop store [] (Some snapshotId)"

text \<open>
  \<open>reconstructReasoning\<close> loads the snapshot and throws the documented error when it is
  absent.  The formatting of the explanation is left as a parameter.
\<close>

datatype error = Error string

definition reconstructReasoning ::
  "(IContextSnapshot \<Rightarrow> string) \<Rightarrow> repository \<Rightarrow> string \<Rightarrow> error + string" where
  "reconstructReasoning format store snapshotId =
     (case findById store snapshotId of
        None \<Rightarrow> Inl (Error (''Context not found: '' @ snapshotId @
                 ''. It may have been pruned or never existed.''))
      | Some s \<Rightarrow> Inr (format s))"

section \<open>MemoryManagerService\<close>

definition hoursBetween :: "int \<Rightarrow> int \<Rightarrow> real" where
  \<comment> \<open>\<open>(now.getTime() - t.getTime()) / (1000 * 60 * 60)\<close>\<close>
  "hoursBetween now t = real_of_int (now - t) / (1000 * 60 * 60)"

definition calculateMemoryTier :: "int option \<Rightarrow> int \<Rightarrow> MemoryTier" where
  "calculateMemoryTier lastAccessed' now =
     (case lastAccessed' of
        None \<Rightarrow> ARCHIVED
      | Some t \<Rightarrow>
          let hoursSinceAccess = hoursBetween now t in
          if hoursSinceAccess < 1 then ACTIVE
          else if hoursSinceAccess < 24 then RECENT
          else if hoursSinceAccess < 24 * 30 then ARCHIVED
          else EXPIRED)"

text \<open>The columns \<open>memory_tier\<close>, \<open>last_accessed\<close> and \<open>access_count\<close> of a row.\<close>

definition tierOf :: "IContextSnapshot \<Rightarrow> MemoryTier option" where
  \<comment> \<open>\<open>context.memory?.tier\<close>\<close>
  "tierOf s = (case memory s of None \<Rightarrow> None | Some m \<Rightarrow> Some (tier m))"

definition lastAccessedOf :: "IContextSnapshot \<Rightarrow> int option" where
  "lastAccessedOf s = (case memory s of None \<Rightarrow> None | Some m \<Rightarrow> lastAccessed m)"

definition accessCountOf :: "IContextSnapshot \<Rightarrow> nat" where
  \<comment> \<open>An absent count fails every \<open>>=\<close> comparison of the source, as 0 does.\<close>
  "accessCountOf s = (case memory s of None \<Rightarrow> 0 | Some m \<Rightarrow> accessCount m)"

record MemoryStats =
  total' :: nat
  active :: nat
  recent :: nat
  archived :: nat
  expired :: nat

definition countTier :: "MemoryStats \<Rightarrow> IContextSnapshot \<Rightarrow> MemoryStats" where
  \<comment> \<open>The \<open>switch (context.memory?.tier)\<close> of \<open>getMemoryStats\<close>: no tier, no bucket.\<close>
  "countTier stats context =
     (case tierOf context of
        None \<Rightarrow> stats
      | Some ACTIVE \<Rightarrow> stats\<lparr>active := active stats + 1\<rparr>
      | Some RECENT \<Rightarrow> stats\<lparr>recent := recent stats + 1\<rparr>
      | Some ARCHIVED \<Rightarrow> stats\<lparr>archived := archived stats + 1\<rparr>
      | Some EXPIRED \<Rightarrow> stats\<lparr>expired := expired stats + 1\<rparr>)"

definition getMemoryStats :: "repository \<Rightarrow> string \<Rightarrow> MemoryStats" where
  "getMemoryStats store proj =
     (let contexts = findByProject store proj (Some 1000) in
      foldl countTier
        \<lparr>total' = length contexts, active = 0, recent = 0, archived = 0, expired = 0\<rparr>
        contexts)"

text \<open>
  The histogram as the specification words it: the tier of every snapshot of the project
  is recomputed from \<open>(lastAccessed, now)\<close>.
\<close>

definition recomputedTierCount :: "int \<Rightarrow> IContextSnapshot list \<Rightarrow> MemoryTier \<Rightarrow> nat" where
  "recomputedTierCount now contexts t =
     length (filter (\<lambda>s. calculateMemoryTier (lastAccessedOf s) now = t) contexts)"

definition getStats_spec :: "int \<Rightarrow> repository \<Rightarrow> string \<Rightarrow> MemoryStats" where
  "getStats_spec now store proj =
     (let contexts = filter (\<lambda>s. project s = proj) store in
      \<lparr>total' = length contexts,
       active = recomputedTierCount now contexts ACTIVE,
       recent = recomputedTierCount now contexts RECENT,
       archived = recomputedTierCount now contexts ARCHIVED,
       expired = recomputedTierCount now contexts EXPIRED\<rparr>)"

text \<open>
  \<open>pruneExpiredContexts\<close> runs
  \<open>DELETE FROM context_snapshots WHERE memory_tier = 'expired'
     ORDER BY last_accessed ASC NULLS FIRST LIMIT ?\<close>.
  Rows are paired with their position in the table, so that the statement deletes rows,
  not values; \<open>None\<close> is the least element of the order on \<open>int option\<close>, which
  is \<open>NULLS FIRST\<close>.  An absent limit deletes every matching row.
\<close>

definition isExpiredRow :: "IContextSnapshot \<Rightarrow> bool" where
  "isExpiredRow s = (tierOf s = Some EXPIRED)"

definition pruneVictims :: "nat option \<Rightarrow> repository \<Rightarrow> (nat \<times> IContextSnapshot) list" where
  "pruneVictims limit store =
     limitRows limit
       (sort_key (\<lambda>r. lastAccessedOf (snd r))
          (filter (\<lambda>r. isExpiredRow (snd r)) (enumerate 0 store)))"


text \<open>The rows a call deletes, and the number of rows whose stored tier is EXPIRED.\<close>

definition prunedRows :: "nat option \<Rightarrow> repository \<Rightarrow> IContextSnapshot list" where
  "prunedRows limit store = map snd (pruneVictims limit store)"









section \<open>PropagationService\<close>

definition hoursSinceAccess :: "int \<Rightarrow> int option \<Rightarrow> real" where
  \<comment> \<open>\<open>(now - lastAccessed) / (1000 * 60 * 60)\<close>; the subtraction reads \<open>null\<close> as 0.\<close>
  "hoursSinceAccess now lastAccessed' =
     real_of_int (now - (case lastAccessed' of None \<Rightarrow> 0 | Some t \<Rightarrow> t)) / (1000 * 60 * 60)"

text \<open>
  \<open>calculatePredictionScore\<close> reads \<open>snapshot.lastAccessed\<close> and
  \<open>snapshot.accessCount\<close>, the properties of the snapshot itself.  With an undefined
  \<open>lastAccessed\<close> the quotient is NaN, written \<open>None\<close>, and every comparison with it
  is false; so is every comparison with an undefined \<open>accessCount\<close>.
\<close>

definition hoursSince :: "int \<Rightarrow> int option property \<Rightarrow> real option" where
  \<comment> \<open>\<open>(now - lastAccessed) / (1000 * 60 * 60)\<close> on the argument of
      \<open>calculateTemporalScore\<close>\<close>
  "hoursSince now lastAccessed' =
     (case lastAccessed' of
        Undefined \<Rightarrow> None
      | Defined la \<Rightarrow> Some (hoursSinceAccess now la))"

definition below :: "real option \<Rightarrow> real \<Rightarrow> bool" where
  \<comment> \<open>\<open>h < x\<close>\<close>
  "below h x = (case h of None \<Rightarrow> False | Some v \<Rightarrow> v < x)"

definition reaches :: "nat property \<Rightarrow> nat \<Rightarrow> bool" where
  \<comment> \<open>\<open>accessCount >= n\<close>\<close>
  "reaches c n = (case c of Undefined \<Rightarrow> False | Defined v \<Rightarrow> v \<ge> n)"

definition calculateTemporalScore :: "int \<Rightarrow> int option property \<Rightarrow> real" where
  "calculateTemporalScore now lastAccessed' =
     (let h = hoursSince now lastAccessed' in
      if below h 1 then 1.0
      else if below h 6 then 0.8
      else if below h 24 then 0.5
      else if below h 168 then 0.3
      else 0.1)"

definition causalScore :: "bool \<Rightarrow> bool \<Rightarrow> bool \<Rightarrow> bool \<Rightarrow> real" where
  "causalScore isRootCause hasMultipleChildren isDecisionNode isLeafNode =
     (if isRootCause then 1.0
      else if hasMultipleChildren then 0.8
      else if isDecisionNode then 0.9
      else if isLeafNode then 0.3
      else 0.5)"

definition calculateFrequencyScore :: "nat property \<Rightarrow> real" where
  "calculateFrequencyScore c =
     (if reaches c 10 then 1.0
      else if reaches c 5 then 0.7
      else if reaches c 2 then 0.4
      else 0.2)"

text \<open>
  The four flags of the causal score are not defined in the sources; they are read off the
  snapshot and the causal graph of the repository as the specification describes them.
\<close>

definition causedByOf :: "IContextSnapshot \<Rightarrow> string option" where
  "causedByOf s = (case causality s of None \<Rightarrow> None | Some c \<Rightarrow> causedBy c)"

definition actionTypeOf :: "IContextSnapshot \<Rightarrow> ActionType option" where
  "actionTypeOf s = (case causality s of None \<Rightarrow> None | Some c \<Rightarrow> actionType c)"

definition children :: "repository \<Rightarrow> IContextSnapshot \<Rightarrow> IContextSnapshot list" where
  \<comment> \<open>Modelled from the spec: the children of a snapshot in the causal graph are the
      snapshots whose \<open>causedBy\<close> is its id.\<close>
  "children store s = filter (\<lambda>c. causedByOf c = Some (id' s)) store"

definition isRootCause :: "IContextSnapshot \<Rightarrow> bool" where
  \<comment> \<open>Modelled from the spec: a root cause has no \<open>causedBy\<close>.\<close>
  "isRootCause s = (causedByOf s = None)"

definition isDecisionNode :: "IContextSnapshot \<Rightarrow> bool" where
  \<comment> \<open>Modelled from the spec: \<open>actionType = decision\<close>.\<close>
  "isDecisionNode s = (actionTypeOf s = Some decision)"

definition hasMultipleChildren :: "repository \<Rightarrow> IContextSnapshot \<Rightarrow> bool" where
  \<comment> \<open>Modelled from the spec: a branch point has more than one child.\<close>
  "hasMultipleChildren store s = (length (children store s) > 1)"

definition isLeafNode :: "repository \<Rightarrow> IContextSnapshot \<Rightarrow> bool" where
  \<comment> \<open>Modelled from the spec: a leaf has no child.\<close>
  "isLeafNode store s = (children store s = [])"

definition calculateCausalScore :: "repository \<Rightarrow> IContextSnapshot \<Rightarrow> real" where
  "calculateCausalScore store s =
     causalScore (isRootCause s) (hasMultipleChildren store s) (isDecisionNode s)
       (isLeafNode store s)"

definition calculatePredictionScore :: "int \<Rightarrow> repository \<Rightarrow> IContextSnapshot \<Rightarrow> real" where
  "calculatePredictionScore now store s =
     (let temporalScore = calculateTemporalScore now (snapshot_lastAccessed s);
          causalScore' = calculateCausalScore store s;
          frequencyScore = calculateFrequencyScore (snapshot_accessCount s)
      in temporalScore * 0.4 + causalScore' * 0.3 + frequencyScore * 0.3)"

definition calculatePropagationReasons :: "int \<Rightarrow> IContextSnapshot \<Rightarrow> string list" where
  "calculatePropagationReasons now context =
     (if hoursSinceAccess now (lastAccessedOf context) < 24 then [''recently_accessed''] else []) @
     (if (case causality context of None \<Rightarrow> False | Some c \<Rightarrow> causedBy c = None)
      then [''causal_chain_root''] else []) @
     (if accessCountOf context \<ge> 10 then [''high_access_frequency''] else []) @
     (if tierOf context = Some ACTIVE then [''active_memory_tier''] else []) @
     (if actionTypeOf context = Some decision then [''decision_node''] else [])"

definition isPredictionStale :: "int \<Rightarrow> int option \<Rightarrow> real \<Rightarrow> bool" where
  "isPredictionStale now lastPredicted' threshold =
     (case lastPredicted' of
        None \<Rightarrow> True
      | Some t \<Rightarrow> hoursBetween now t \<ge> threshold)"

definition recalculatePrediction :: "int \<Rightarrow> repository \<Rightarrow> IContextSnapshot \<Rightarrow> IContextSnapshot" where
  \<comment> \<open>Modelled from the spec: the body of \<open>recalculatePrediction\<close> is not in the sources;
      the spec has it recompute \<open>predictionScore\<close>, \<open>propagationReasons\<close> and
      \<open>lastPredicted\<close>.\<close>
  "recalculatePrediction now store s =
     s\<lparr>predictionScore := Some (calculatePredictionScore now store s),
       lastPredicted := Some now,
       propagationReasons := calculatePropagationReasons now s\<rparr>"

definition needsUpdate :: "int \<Rightarrow> string \<Rightarrow> real \<Rightarrow> IContextSnapshot \<Rightarrow> bool" where
  "needsUpdate now proj staleThreshold s =
     (project s = proj \<and> isPredictionStale now (lastPredicted s) staleThreshold)"

definition updateProjectPredictions ::
  "int \<Rightarrow> repository \<Rightarrow> string \<Rightarrow> real \<Rightarrow> nat \<times> repository" where
  \<comment> \<open>Modelled from the spec: the body of \<open>updateProjectPredictions\<close> is not in the
      sources; the spec has it recompute the prediction of every snapshot of the project
      whose prediction is stale, skip the others, and return the count touched.\<close>
  "updateProjectPredictions now store proj staleThreshold =
     (length (filter (needsUpdate now proj staleThreshold) store),
      map (\<lambda>s. if needsUpdate now proj staleThreshold s
                then recalculatePrediction now store s else s) store)"

section \<open>Example repositories\<close>

definition exampleSnapshot :: "string \<Rightarrow> string option \<Rightarrow> IContextSnapshot" where
  "exampleSnapshot i p =
     \<lparr>id' = i, project = ''demo'', summary = ''summary'', timestamp = 0,
      causality = Some \<lparr>actionType = None, causedBy = p, rationale = None\<rparr>,
      memory = None, snapshot_lastAccessed = Undefined, snapshot_accessCount = Undefined,
      predictionScore = None, lastPredicted = None, propagationReasons = []\<rparr>"

text \<open>Root \<open>A\<close>, then \<open>B\<close> caused by \<open>A\<close>, then \<open>C\<close> caused by \<open>B\<close>.\<close>

definition chainABC :: repository where
  "chainABC = [exampleSnapshot ''A'' None, exampleSnapshot ''B'' (Some ''A''),
               exampleSnapshot ''C'' (Some ''B'')]"

text \<open>A causal cycle: \<open>A\<close> caused by \<open>B\<close> and \<open>B\<close> caused by \<open>A\<close>.\<close>

definition cycleAB :: repository where
  "cycleAB = [exampleSnapshot ''A'' (Some ''B''), exampleSnapshot ''B'' (Some ''A'')]"

text \<open>
  A decision \<open>D\<close> caused by the root \<open>R\<close>; in \<open>branchStore\<close> it has the two children
  \<open>X\<close> and \<open>Y\<close>, in \<open>lineStore\<close> only \<open>X\<close>.
\<close>

definition decisionD :: IContextSnapshot where
  "decisionD = (exampleSnapshot ''D'' (Some ''R''))
     \<lparr>causality := Some \<lparr>actionType = Some decision, causedBy = Some ''R'', rationale = None\<rparr>\<rparr>"

definition branchStore :: repository where
  "branchStore = [exampleSnapshot ''R'' None, decisionD,
                  exampleSnapshot ''X'' (Some ''D''), exampleSnapshot ''Y'' (Some ''D'')]"

definition lineStore :: repository where
  "lineStore = [exampleSnapshot ''R'' None, decisionD, exampleSnapshot ''X'' (Some ''D'')]"

text \<open>
  A root cause accessed ten times, last at instant 1000000, shaped as the unit test of
  \<open>PropagationService\<close> shapes its context: \<open>memory: {lastAccessed, accessCount: 10,
  tier: ACTIVE}\<close> and \<open>causality: {causedBy: null}\<close>.
\<close>

definition hotRoot :: IContextSnapshot where
  "hotRoot = (exampleSnapshot ''H'' None)
     \<lparr>memory := Some \<lparr>tier = ACTIVE, lastAccessed = Some 1000000, accessCount = 10\<rparr>\<rparr>"

text \<open>A snapshot with a parent, accessed seven times, last at instant 0.\<close>

definition moderateSnapshot :: IContextSnapshot where
  "moderateSnapshot = (exampleSnapshot ''M'' (Some ''R''))
     \<lparr>memory := Some \<lparr>tier = RECENT, lastAccessed = Some 0, accessCount = 7\<rparr>\<rparr>"

text \<open>
  Two snapshots of one project: one predicted at hour 29, one at hour 0 (the instants
  are milliseconds).
\<close>

definition predictedAt :: "string \<Rightarrow> int option \<Rightarrow> IContextSnapshot" where
  "predictedAt i lp = (exampleSnapshot i None)\<lparr>lastPredicted := lp\<rparr>"

definition freshAndStale :: repository where
  "freshAndStale = [predictedAt ''fresh'' (Some 104400000), predictedAt ''stale'' (Some 0)]"

text \<open>A snapshot stored as ACTIVE whose last access was at instant 0.\<close>

definition staleActive :: IContextSnapshot where
  "staleActive = (exampleSnapshot ''S'' None)
     \<lparr>memory := Some \<lparr>tier = ACTIVE, lastAccessed = Some 0, accessCount = 1\<rparr>\<rparr>"

text \<open>
  A table whose stored tiers are up to date at the instant 3000000000: three EXPIRED rows
  (last accessed 833, 805 and 777 hours before), one ACTIVE row and one row never
  accessed.
\<close>

definition agedRow :: "string \<Rightarrow> MemoryTier \<Rightarrow> int option \<Rightarrow> nat \<Rightarrow> IContextSnapshot" where
  "agedRow i t la n = (exampleSnapshot i None)
     \<lparr>memory := Some \<lparr>tier = t, lastAccessed = la, accessCount = n\<rparr>\<rparr>"


section \<open>The causal chain\<close>

lemma findById_Some: "findById store i = Some s \<Longrightarrow> s \<in> set store \<and> id' s = i"
  unfolding findById_def by (auto simp: find_Some_iff)

lemmas chain_eval = buildCausalChain_def buildCausalChain_loop.simps findById_def
  parentId_def exampleSnapshot_def

lemma loop_stop:
  "\<not> (\<exists>i s. cur = Some i \<and> i \<noteq> [] \<and> i \<notin> V \<and> findById store i = Some s)
   \<Longrightarrow> buildCausalChain_loop store V chain cur d = chain"
  by (subst buildCausalChain_loop.simps) (auto split: option.splits)

lemma loop_step:
  "cur = Some i \<Longrightarrow> i \<noteq> [] \<Longrightarrow> i \<notin> V \<Longrightarrow> findById store i = Some s
   \<Longrightarrow> buildCausalChain_loop store V chain cur d =
       buildCausalChain_loop store (insert i V)
         (\<lparr>snapshot = s, depth = d, causedBy' = parentId s\<rparr> # chain) (parentId s) (d + 1)"
  by (subst buildCausalChain_loop.simps) simp

text \<open>
  What one run of the loop adds in front of the chain: nodes whose depths count down to
  \<open>d\<close>, at most one per id of the repository not yet visited, with pairwise different
  ids; and when the loop is entered at a snapshot the repository returns, that snapshot
  is the last node added, at depth \<open>d\<close>.
\<close>

lemma loop_invariant:
  "\<exists>pre. buildCausalChain_loop store V chain cur d = pre @ chain
     \<and> map depth pre = rev [d ..< d + length pre]
     \<and> length pre \<le> card (id' ` set store - V)
     \<and> distinct (map (id' \<circ> snapshot) pre)
     \<and> set (map (id' \<circ> snapshot) pre) \<inter> V = {}
     \<and> (\<forall>i s. cur = Some i \<and> i \<noteq> [] \<and> i \<notin> V \<and> findById store i = Some s
            \<longrightarrow> pre \<noteq> [] \<and> last pre = \<lparr>snapshot = s, depth = d, causedBy' = parentId s\<rparr>)"
proof (induction store V chain cur d rule: buildCausalChain_loop.induct)
  case (1 store V chain cur d)
  show ?case
  proof (cases "\<exists>i s. cur = Some i \<and> i \<noteq> [] \<and> i \<notin> V \<and> findById store i = Some s")
    case False
    then have "buildCausalChain_loop store V chain cur d = chain"
      by (rule loop_stop)
    with False show ?thesis
      by (intro exI[of _ "[]"]) simp
  next
    case True
    then obtain i s where cur: "cur = Some i" and ne: "i \<noteq> []" and nv: "i \<notin> V"
      and found: "findById store i = Some s"
      by blast
    let ?n = "\<lparr>snapshot = s, depth = d, causedBy' = parentId s\<rparr>"
    from ne nv have guard: "\<not> (i = [] \<or> i \<in> V)" by simp
    from "1.IH"[OF cur guard found]
    obtain pre where
      eq: "buildCausalChain_loop store (insert i V) (?n # chain) (parentId s) (d + 1)
             = pre @ ?n # chain"
      and dep: "map depth pre = rev [d + 1 ..< d + 1 + length pre]"
      and len: "length pre \<le> card (id' ` set store - insert i V)"
      and dis: "distinct (map (id' \<circ> snapshot) pre)"
      and dsj: "set (map (id' \<circ> snapshot) pre) \<inter> insert i V = {}"
      by blast
    from found have ids: "id' s = i" and mem: "i \<in> id' ` set store"
      using findById_Some by force+
    have step: "buildCausalChain_loop store V chain cur d = (pre @ [?n]) @ chain"
      using loop_step[OF cur ne nv found] eq by simp
    have "[d ..< d + length (pre @ [?n])] = d # [d + 1 ..< d + 1 + length pre]"
      by (subst upt_rec) simp
    then have dep': "map depth (pre @ [?n]) = rev [d ..< d + length (pre @ [?n])]"
      using dep by simp
    from mem nv have "id' ` set store - insert i V \<subset> id' ` set store - V"
      by auto
    then have "card (id' ` set store - insert i V) < card (id' ` set store - V)"
      by (intro psubset_card_mono) auto
    with len have len': "length (pre @ [?n]) \<le> card (id' ` set store - V)"
      by simp
    from dis dsj ids have dis': "distinct (map (id' \<circ> snapshot) (pre @ [?n]))"
      by auto
    from dsj ids nv have dsj': "set (map (id' \<circ> snapshot) (pre @ [?n])) \<inter> V = {}"
      by auto
    have lst: "\<forall>j t. cur = Some j \<and> j \<noteq> [] \<and> j \<notin> V \<and> findById store j = Some t
            \<longrightarrow> pre @ [?n] \<noteq> []
              \<and> last (pre @ [?n]) = \<lparr>snapshot = t, depth = d, causedBy' = parentId t\<rparr>"
      using cur found by auto
    from step dep' len' dis' dsj' lst show ?thesis
      by blast
  qed
qed

text \<open>
  In every returned chain the depths count down to 0: the node at index \<open>k\<close> of a chain
  of \<open>n\<close> nodes has depth \<open>n - 1 - k\<close>, its distance from the queried snapshot.
\<close>

lemma buildCausalChain_depths:
  "map depth (buildCausalChain store i) = rev [0 ..< length (buildCausalChain store i)]"
  using loop_invariant[of store "{}" "[]" "Some i" 0]
  by (auto simp: buildCausalChain_def)

lemma buildCausalChain_length: "length (buildCausalChain store i) \<le> length store"
proof -
  have "length (buildCausalChain store i) \<le> card (id' ` set store)"
    using loop_invariant[of store "{}" "[]" "Some i" 0]
    by (auto simp: buildCausalChain_def)
  also have "\<dots> \<le> card (set store)"
    by (rule card_image_le) simp
  also have "\<dots> \<le> length store"
    by (rule card_length)
  finally show ?thesis .
qed

lemma buildCausalChain_distinct:
  "distinct (map (id' \<circ> snapshot) (buildCausalChain store i))"
  using loop_invariant[of store "{}" "[]" "Some i" 0]
  by (auto simp: buildCausalChain_def)

lemma buildCausalChain_last:
  assumes "findById store i = Some s" and "i \<noteq> []"
  shows "buildCausalChain store i \<noteq> []
       \<and> last (buildCausalChain store i) = \<lparr>snapshot = s, depth = 0, causedBy' = parentId s\<rparr>"
  using loop_invariant[of store "{}" "[]" "Some i" 0] assms
  by (auto simp: buildCausalChain_def)

text \<open>
  Claim C1.  On the acyclic, fully resolvable chain \<open>A \<leftarrow> B \<leftarrow> C\<close>, queried at \<open>C\<close>,
  \<open>buildCausalChain\<close> returns the root \<open>A\<close> at index 0 and the queried snapshot \<open>C\<close>
  last, but with depths 2, 1, 0: the depth it stores is the distance from the queried
  snapshot and decreases along the returned sequence, where the claim (and the documented
  \<open>depth\<close>, "distance from root, 0 = root") has 0, 1, 2.
\<close>

theorem C1_depth_counts_from_queried_snapshot:
  "map (\<lambda>n. (id' (snapshot n), depth n)) (buildCausalChain chainABC ''C'')
     = [(''A'', 2), (''B'', 1), (''C'', 0)]"
  by (simp add: chain_eval chainABC_def)

section \<open>Memory tiers\<close>

text \<open>
  Claim C2.  \<open>calculateMemoryTier\<close> maps an absent \<open>lastAccessed\<close> to ARCHIVED and
  otherwise classifies by the elapsed hours \<open>h\<close> with half-open boundaries:
  ACTIVE exactly when \<open>h < 1\<close>, RECENT exactly when \<open>1 \<le> h < 24\<close>, ARCHIVED exactly
  when \<open>24 \<le> h < 720\<close>, EXPIRED exactly when \<open>720 \<le> h\<close>.  The boundaries lie at
  exactly 3600000, 86400000 and 2592000000 milliseconds.  (Instants are whole
  milliseconds, so a quotient other than a threshold is further from it than the rounding
  of the source's floating-point division: the exact quotient decides the comparisons.)
\<close>

theorem C2_calculateMemoryTier_boundaries:
  "calculateMemoryTier None now = ARCHIVED
   \<and> (calculateMemoryTier (Some t) now = ACTIVE \<longleftrightarrow> hoursBetween now t < 1)
   \<and> (calculateMemoryTier (Some t) now = RECENT
        \<longleftrightarrow> 1 \<le> hoursBetween now t \<and> hoursBetween now t < 24)
   \<and> (calculateMemoryTier (Some t) now = ARCHIVED
        \<longleftrightarrow> 24 \<le> hoursBetween now t \<and> hoursBetween now t < 720)
   \<and> (calculateMemoryTier (Some t) now = EXPIRED \<longleftrightarrow> 720 \<le> hoursBetween now t)
   \<and> (hoursBetween now t < 1 \<longleftrightarrow> now - t < 3600000)
   \<and> (hoursBetween now t < 24 \<longleftrightarrow> now - t < 86400000)
   \<and> (hoursBetween now t < 720 \<longleftrightarrow> now - t < 2592000000)"
  by (auto simp: calculateMemoryTier_def hoursBetween_def Let_def)

text \<open>
  Boundary-adjacent instants: 59 minutes 59 seconds is ACTIVE and 60 minutes is RECENT;
  one millisecond below 24 hours is RECENT and 24 hours is ARCHIVED; one millisecond
  below 720 hours is ARCHIVED and 720 hours is EXPIRED.
\<close>

theorem C2_boundary_witness:
  "calculateMemoryTier (Some 0) 3599000 = ACTIVE
   \<and> calculateMemoryTier (Some 0) 3600000 = RECENT
   \<and> calculateMemoryTier (Some 0) 86399999 = RECENT
   \<and> calculateMemoryTier (Some 0) 86400000 = ARCHIVED
   \<and> calculateMemoryTier (Some 0) 2591999999 = ARCHIVED
   \<and> calculateMemoryTier (Some 0) 2592000000 = EXPIRED"
  using C2_calculateMemoryTier_boundaries[of 3599000 0]
    C2_calculateMemoryTier_boundaries[of 3600000 0]
    C2_calculateMemoryTier_boundaries[of 86399999 0]
    C2_calculateMemoryTier_boundaries[of 86400000 0]
    C2_calculateMemoryTier_boundaries[of 2591999999 0]
    C2_calculateMemoryTier_boundaries[of 2592000000 0]
  by (simp add: hoursBetween_def)

section \<open>Cycles and missing snapshots\<close>

text \<open>
  The loop guard \<open>currentId && \<dots>\<close> is false for the empty string, so the empty id
  gives the empty chain whatever the repository holds.  Ids are UUIDs issued when a
  snapshot is saved; the empty string is none.
\<close>

lemma buildCausalChain_empty_id: "buildCausalChain store [] = []"
  by (simp add: buildCausalChain_def buildCausalChain_loop.simps)

text \<open>
  Claim C6.  \<open>buildCausalChain\<close> is a total function on every repository, cyclic or not
  (its loop is defined with a termination proof: each iteration visits an id of the
  repository not visited before).  On a repository whose ids are not empty, when the
  repository returns the starting snapshot, the chain is non-empty, ends with the
  starting snapshot, has at most as many nodes as the repository has rows, and no id
  occurs in it twice.
\<close>

theorem C6_buildCausalChain_terminates_nonempty:
  assumes "\<forall>s \<in> set store. id' s \<noteq> []" and "findById store i = Some s"
  shows "buildCausalChain store i \<noteq> []
       \<and> last (buildCausalChain store i) = \<lparr>snapshot = s, depth = 0, causedBy' = parentId s\<rparr>
       \<and> length (buildCausalChain store i) \<le> length store
       \<and> distinct (map (id' \<circ> snapshot) (buildCausalChain store i))"
proof -
  from assms have "i \<noteq> []"
    using findById_Some by blast
  with assms(2) show ?thesis
    using buildCausalChain_last buildCausalChain_length buildCausalChain_distinct
    by blast
qed

text \<open>
  On the cycle of \<open>A\<close> and \<open>B\<close>, queried at \<open>A\<close>, the walk stops when it comes back to
  \<open>A\<close> and returns the two nodes.
\<close>

theorem C6_cycle_witness:
  "map id' cycleAB = [''A'', ''B'']
   \<and> findById cycleAB ''A'' = Some (exampleSnapshot ''A'' (Some ''B''))
   \<and> map (id' \<circ> snapshot) (buildCausalChain cycleAB ''A'') = [''B'', ''A'']
   \<and> last (buildCausalChain cycleAB ''A'')
       = \<lparr>snapshot = exampleSnapshot ''A'' (Some ''B''), depth = 0, causedBy' = Some ''B''\<rparr>
   \<and> length (buildCausalChain cycleAB ''A'') \<le> length cycleAB"
proof -
  have ids: "\<forall>s \<in> set cycleAB. id' s \<noteq> []"
    by (simp add: cycleAB_def exampleSnapshot_def)
  have f: "findById cycleAB ''A'' = Some (exampleSnapshot ''A'' (Some ''B''))"
    by (simp add: findById_def cycleAB_def exampleSnapshot_def)
  have p: "parentId (exampleSnapshot ''A'' (Some ''B'')) = Some ''B''"
    by (simp add: parentId_def exampleSnapshot_def)
  have e: "map (id' \<circ> snapshot) (buildCausalChain cycleAB ''A'') = [''B'', ''A'']"
    by (simp add: chain_eval cycleAB_def)
  have m: "map id' cycleAB = [''A'', ''B'']"
    by (simp add: cycleAB_def exampleSnapshot_def)
  from C6_buildCausalChain_terminates_nonempty[OF ids f] m f p e show ?thesis
    by simp
qed

text \<open>
  The shorter copy of the function, without the visited set, agrees on the acyclic chain
  (depths 2, 1, 0 again) and never returns on the cycle.
\<close>

lemma buildCausalChain_short_chainABC:
  "map_option (map (\<lambda>n. (id' (snapshot n), depth n))) (buildCausalChain_short chainABC ''C'')
     = Some [(''A'', 2), (''B'', 1), (''C'', 0)]"
  by (simp add: buildCausalChain_short_def buildCausalChain_short_loop.simps findById_def
      parentId_def exampleSnapshot_def chainABC_def)

lemma cycleAB_links:
  "findById cycleAB ''A'' = Some (exampleSnapshot ''A'' (Some ''B''))"
  "findById cycleAB ''B'' = Some (exampleSnapshot ''B'' (Some ''A''))"
  "parentId (exampleSnapshot ''A'' (Some ''B'')) = Some ''B''"
  "parentId (exampleSnapshot ''B'' (Some ''A'')) = Some ''A''"
  by (simp_all add: findById_def parentId_def cycleAB_def exampleSnapshot_def)

lemma short_loop_on_cycle:
  assumes "buildCausalChain_short_loop store chain cur = Some y"
  shows "\<not> (store = cycleAB \<and> (cur = Some ''A'' \<or> cur = Some ''B''))"
proof (rule buildCausalChain_short_loop.raw_induct
    [where P = "\<lambda>st ch cu r. \<not> (st = cycleAB \<and> (cu = Some ''A'' \<or> cu = Some ''B''))"
       and store = store and chain = chain and currentId = cur and y = y])
  show "buildCausalChain_short_loop store chain cur = Some y"
    by (rule assms)
next
  fix loop :: "repository \<Rightarrow> CausalChainNode list \<Rightarrow> string option \<Rightarrow> CausalChainNode list option"
    and st ch cu r
  assume IH: "\<And>st ch cu r. loop st ch cu = Some r
                \<Longrightarrow> \<not> (st = cycleAB \<and> (cu = Some ''A'' \<or> cu = Some ''B''))"
    and step: "(case cu of
                  None \<Rightarrow> Some ch
                | Some i \<Rightarrow>
                    if i = [] then Some ch
                    else (case findById st i of
                            None \<Rightarrow> Some ch
                          | Some s \<Rightarrow>
                              loop st (\<lparr>snapshot = s, depth = length ch, causedBy' = None\<rparr> # ch)
                                (parentId s))) = Some r"
  show "\<not> (st = cycleAB \<and> (cu = Some ''A'' \<or> cu = Some ''B''))"
  proof
    assume c: "st = cycleAB \<and> (cu = Some ''A'' \<or> cu = Some ''B'')"
    then consider "cu = Some ''A''" | "cu = Some ''B''"
      by blast
    then show False
    proof cases
      case 1
      with c step have "loop cycleAB
          (\<lparr>snapshot = exampleSnapshot ''A'' (Some ''B''), depth = length ch,
             causedBy' = None\<rparr> # ch) (Some ''B'') = Some r"
        by (simp add: cycleAB_links)
      from IH[OF this] show False
        by simp
    next
      case 2
      with c step have "loop cycleAB
          (\<lparr>snapshot = exampleSnapshot ''B'' (Some ''A''), depth = length ch,
             causedBy' = None\<rparr> # ch) (Some ''A'') = Some r"
        by (simp add: cycleAB_links)
      from IH[OF this] show False
        by simp
    qed
  qed
qed

lemma buildCausalChain_short_cycle: "buildCausalChain_short cycleAB ''A'' = None"
proof (cases "buildCausalChain_short cycleAB ''A''")
  case None
  then show ?thesis .
next
  case (Some y)
  then show ?thesis
    using short_loop_on_cycle[of cycleAB "[]" "Some ''A''" y]
    by (simp add: buildCausalChain_short_def)
qed

text \<open>
  Claim C10.  When the repository cannot return the starting id, \<open>buildCausalChain\<close>
  returns the empty chain; \<open>reconstructReasoning\<close> on the same id fails with the
  "Context not found" error.
\<close>

theorem C10_missing_start_gives_empty_chain:
  assumes "findById store i = None"
  shows "buildCausalChain store i = []
       \<and> reconstructReasoning format store i
           = Inl (Error (''Context not found: '' @ i @
                    ''. It may have been pruned or never existed.''))"
  using assms
  by (simp add: buildCausalChain_def buildCausalChain_loop.simps reconstructReasoning_def)

theorem C10_missing_start_witness:
  "findById cycleAB ''Z'' = None
   \<and> buildCausalChain cycleAB ''Z'' = []
   \<and> reconstructReasoning summary cycleAB ''Z''
       = Inl (Error ''Context not found: Z. It may have been pruned or never existed.'')"
proof -
  have f: "findById cycleAB ''Z'' = None"
    by (simp add: findById_def cycleAB_def exampleSnapshot_def)
  from C10_missing_start_gives_empty_chain[OF f, of summary] f show ?thesis
    by simp
qed

section \<open>Prediction scores\<close>

lemmas flag_eval = isRootCause_def isDecisionNode_def hasMultipleChildren_def isLeafNode_def
  children_def causedByOf_def actionTypeOf_def decisionD_def exampleSnapshot_def

text \<open>
  The claim C3 as stated fails: the decision \<open>D\<close> is not a root cause and has two
  children, and its causal score is 0.8, not 0.9; the branch-point test comes before the
  decision test.
\<close>

theorem C3_decision_branch_point_counterexample:
  "\<not> (\<forall>store s. \<not> isRootCause s \<and> isDecisionNode s \<longrightarrow> calculateCausalScore store s = 0.9)"
proof
  assume a: "\<forall>store s. \<not> isRootCause s \<and> isDecisionNode s
               \<longrightarrow> calculateCausalScore store s = 0.9"
  have "\<not> isRootCause decisionD \<and> isDecisionNode decisionD"
    by (simp add: flag_eval)
  with a have "calculateCausalScore branchStore decisionD = 0.9"
    by blast
  moreover have "calculateCausalScore branchStore decisionD = 0.8"
    by (simp add: calculateCausalScore_def causalScore_def flag_eval branchStore_def)
  ultimately show False
    by simp
qed

text \<open>
  Claim C3, amended.  The causal score is evaluated in the order root cause (1.0), then
  branch point with multiple children (0.8), then decision (0.9), then leaf (0.3),
  otherwise 0.5.  A decision that is not a root cause scores 0.9 exactly when it has at
  most one child.
\<close>

theorem C3_causal_score_priority:
  "(isRootCause s \<longrightarrow> calculateCausalScore store s = 1.0)
   \<and> (\<not> isRootCause s \<and> hasMultipleChildren store s \<longrightarrow> calculateCausalScore store s = 0.8)
   \<and> (\<not> isRootCause s \<and> \<not> hasMultipleChildren store s \<and> isDecisionNode s
        \<longrightarrow> calculateCausalScore store s = 0.9)
   \<and> (\<not> isRootCause s \<and> \<not> hasMultipleChildren store s \<and> \<not> isDecisionNode s
        \<and> isLeafNode store s \<longrightarrow> calculateCausalScore store s = 0.3)
   \<and> (\<not> isRootCause s \<and> \<not> hasMultipleChildren store s \<and> \<not> isDecisionNode s
        \<and> \<not> isLeafNode store s \<longrightarrow> calculateCausalScore store s = 0.5)
   \<and> (\<not> isRootCause s \<and> isDecisionNode s
        \<longrightarrow> (calculateCausalScore store s = 0.9 \<longleftrightarrow> length (children store s) \<le> 1))"
  by (auto simp: calculateCausalScore_def causalScore_def hasMultipleChildren_def)

theorem C3_causal_score_witness:
  "\<not> isRootCause decisionD \<and> isDecisionNode decisionD
   \<and> hasMultipleChildren branchStore decisionD
   \<and> calculateCausalScore branchStore decisionD = 0.8
   \<and> \<not> hasMultipleChildren lineStore decisionD
   \<and> calculateCausalScore lineStore decisionD = 0.9"
proof -
  have f: "\<not> isRootCause decisionD" "isDecisionNode decisionD"
    "hasMultipleChildren branchStore decisionD" "\<not> hasMultipleChildren lineStore decisionD"
    by (simp_all add: flag_eval branchStore_def lineStore_def)
  from C3_causal_score_priority[of decisionD branchStore]
    C3_causal_score_priority[of decisionD lineStore] f
  show ?thesis by simp
qed

lemma calculateTemporalScore_bounds:
  "0.1 \<le> calculateTemporalScore now la \<and> calculateTemporalScore now la \<le> 1"
  by (simp add: calculateTemporalScore_def Let_def)

lemma causalScore_bounds:
  "0.3 \<le> causalScore r m d l \<and> causalScore r m d l \<le> 1"
  by (simp add: causalScore_def)

lemma calculateFrequencyScore_bounds:
  "0.2 \<le> calculateFrequencyScore c \<and> calculateFrequencyScore c \<le> 1"
  by (simp add: calculateFrequencyScore_def)

lemma calculatePredictionScore_bounds:
  "0 \<le> calculatePredictionScore now store s \<and> calculatePredictionScore now store s \<le> 1"
proof -
  let ?t = "calculateTemporalScore now (snapshot_lastAccessed s)"
  let ?c = "calculateCausalScore store s"
  let ?f = "calculateFrequencyScore (snapshot_accessCount s)"
  have score: "calculatePredictionScore now store s = ?t * 0.4 + ?c * 0.3 + ?f * 0.3"
    by (simp add: calculatePredictionScore_def Let_def)
  have t: "0.1 \<le> ?t" "?t \<le> 1"
    using calculateTemporalScore_bounds by blast+
  have c: "0.3 \<le> ?c" "?c \<le> 1"
    using causalScore_bounds by (simp_all add: calculateCausalScore_def)
  have f: "0.2 \<le> ?f" "?f \<le> 1"
    using calculateFrequencyScore_bounds by blast+
  have lo: "0 \<le> calculatePredictionScore now store s"
    unfolding score using t c f by linarith
  have hi: "calculatePredictionScore now store s \<le> 1"
    unfolding score using t c f by linarith
  from lo hi show ?thesis ..
qed

text \<open>
  Where the snapshot itself carries \<open>lastAccessed\<close> and \<open>accessCount\<close>, an access within
  the hour, ten accesses and no \<open>causedBy\<close> give the score 1.
\<close>

lemma calculatePredictionScore_own_properties:
  assumes "snapshot_lastAccessed s = Defined (Some t)" and "hoursBetween now t < 1"
    and "snapshot_accessCount s = Defined n" and "10 \<le> n" and "causedByOf s = None"
  shows "calculatePredictionScore now store s = 1"
proof -
  from assms(1,2) have "calculateTemporalScore now (snapshot_lastAccessed s) = 1"
    by (simp add: calculateTemporalScore_def hoursSince_def below_def hoursSinceAccess_def
        hoursBetween_def)
  moreover from assms(5) have "calculateCausalScore store s = 1"
    by (simp add: calculateCausalScore_def causalScore_def isRootCause_def)
  moreover from assms(3,4) have "calculateFrequencyScore (snapshot_accessCount s) = 1"
    by (simp add: calculateFrequencyScore_def reaches_def)
  ultimately show ?thesis
    by (simp add: calculatePredictionScore_def Let_def)
qed

text \<open>
  Claim C8.  \<open>calculatePredictionScore\<close> lies in \<open>[0, 1]\<close> for every snapshot.  The
  snapshot \<open>hotRoot\<close> is shaped as the unit test of the service shapes its context: the
  access data is in the \<open>memory\<close> group (last access half an hour before the instant
  2800000, ten accesses) and \<open>causedBy\<close> is null.  The method reads
  \<open>snapshot.lastAccessed\<close> and \<open>snapshot.accessCount\<close>, which are undefined on it, so the
  temporal score is 0.1 and the frequency score 0.2, and the score is 0.4 at every
  instant, where the claim has at least 0.9 (and the unit test expects more than 0.8).
\<close>

theorem C8_score_misses_memory_group:
  "lastAccessedOf hotRoot = Some 1000000 \<and> hoursBetween 2800000 1000000 < 1
   \<and> accessCountOf hotRoot = 10 \<and> causedByOf hotRoot = None
   \<and> calculatePredictionScore 2800000 [hotRoot] hotRoot = 0.4
   \<and> (\<forall>now store. calculatePredictionScore now store hotRoot = 0.4)
   \<and> (\<forall>now store s. 0 \<le> calculatePredictionScore now store s
                       \<and> calculatePredictionScore now store s \<le> 1)"
proof -
  have h: "lastAccessedOf hotRoot = Some 1000000" "hoursBetween 2800000 1000000 < 1"
    "accessCountOf hotRoot = 10" "causedByOf hotRoot = None"
    by (simp_all add: hotRoot_def exampleSnapshot_def lastAccessedOf_def accessCountOf_def
        causedByOf_def hoursBetween_def)
  have v: "calculatePredictionScore now store hotRoot = 0.4" for now store
    by (simp add: calculatePredictionScore_def calculateTemporalScore_def hoursSince_def
        below_def calculateFrequencyScore_def reaches_def calculateCausalScore_def
        causalScore_def isRootCause_def causedByOf_def hotRoot_def exampleSnapshot_def)
  from h v calculatePredictionScore_bounds show ?thesis
    by simp
qed

section \<open>Propagation reasons\<close>

text \<open>
  Claim C9.  The snapshot \<open>M\<close> was accessed seven times, last two hours before the
  instant 7200000, has a parent, is RECENT and is no decision.  The claim (and the
  documented list of possible reasons) gives it \<open>recently_accessed\<close> and
  \<open>moderate_access_frequency\<close>; \<open>calculatePropagationReasons\<close> returns
  \<open>recently_accessed\<close> alone, and it returns \<open>moderate_access_frequency\<close> for no
  snapshot at all.
\<close>

theorem C9_moderate_access_frequency_never_reported:
  "calculatePropagationReasons 7200000 moderateSnapshot = [''recently_accessed'']
   \<and> (\<forall>now s. ''moderate_access_frequency'' \<notin> set (calculatePropagationReasons now s))"
  by (simp add: calculatePropagationReasons_def moderateSnapshot_def exampleSnapshot_def
      hoursSinceAccess_def lastAccessedOf_def accessCountOf_def tierOf_def actionTypeOf_def)

section \<open>Stale predictions\<close>

lemma isPredictionStale_iff:
  "isPredictionStale now lp threshold
     \<longleftrightarrow> lp = None \<or> (\<exists>t. lp = Some t \<and> threshold \<le> hoursBetween now t)"
  by (cases lp) (simp_all add: isPredictionStale_def)

text \<open>
  Claim C7.  \<open>isPredictionStale\<close> holds exactly when \<open>lastPredicted\<close> is absent or the
  hours from \<open>lastPredicted\<close> to now are at least the threshold.
  \<open>updateProjectPredictions\<close> returns the number of snapshots of the project whose
  prediction is stale, keeps every row in place, sets \<open>predictionScore\<close>,
  \<open>propagationReasons\<close> and \<open>lastPredicted\<close> of exactly those snapshots, and leaves
  every other snapshot as it was.
\<close>

theorem C7_stale_predictions_only:
  "(isPredictionStale now lp threshold
      \<longleftrightarrow> lp = None \<or> (\<exists>t. lp = Some t \<and> threshold \<le> hoursBetween now t))
   \<and> fst (updateProjectPredictions now store proj threshold)
       = length (filter (\<lambda>s. project s = proj
                              \<and> isPredictionStale now (lastPredicted s) threshold) store)
   \<and> length (snd (updateProjectPredictions now store proj threshold)) = length store
   \<and> (\<forall>k < length store.
         snd (updateProjectPredictions now store proj threshold) ! k =
           (if project (store ! k) = proj
               \<and> isPredictionStale now (lastPredicted (store ! k)) threshold
            then (store ! k)
                   \<lparr>predictionScore := Some (calculatePredictionScore now store (store ! k)),
                    lastPredicted := Some now,
                    propagationReasons := calculatePropagationReasons now (store ! k)\<rparr>
            else store ! k))"
proof -
  have count: "fst (updateProjectPredictions now store proj threshold)
       = length (filter (\<lambda>s. project s = proj
                              \<and> isPredictionStale now (lastPredicted s) threshold) store)"
    by (simp add: updateProjectPredictions_def needsUpdate_def[abs_def])
  have len: "length (snd (updateProjectPredictions now store proj threshold)) = length store"
    by (simp add: updateProjectPredictions_def)
  have rows: "\<forall>k < length store.
         snd (updateProjectPredictions now store proj threshold) ! k =
           (if project (store ! k) = proj
               \<and> isPredictionStale now (lastPredicted (store ! k)) threshold
            then (store ! k)
                   \<lparr>predictionScore := Some (calculatePredictionScore now store (store ! k)),
                    lastPredicted := Some now,
                    propagationReasons := calculatePropagationReasons now (store ! k)\<rparr>
            else store ! k)"
    by (simp add: updateProjectPredictions_def needsUpdate_def recalculatePrediction_def)
  from isPredictionStale_iff count len rows show ?thesis
    by blast
qed

text \<open>
  At hour 30 with the default threshold of 24 hours, the prediction made at hour 29 is
  fresh and the one made at hour 0 is stale: one snapshot is touched, the fresh one is
  unchanged, the stale one is stamped with the current instant.
\<close>

theorem C7_fresh_and_stale_witness:
  "\<not> isPredictionStale 108000000 (Some 104400000) 24
   \<and> isPredictionStale 108000000 (Some 0) 24
   \<and> fst (updateProjectPredictions 108000000 freshAndStale ''demo'' 24) = 1
   \<and> snd (updateProjectPredictions 108000000 freshAndStale ''demo'' 24) ! 0
       = predictedAt ''fresh'' (Some 104400000)
   \<and> lastPredicted (snd (updateProjectPredictions 108000000 freshAndStale ''demo'' 24) ! 1)
       = Some 108000000"
proof -
  note inst = C7_stale_predictions_only[of 108000000 "Some 0" 24 freshAndStale "''demo''"]
  have s: "\<not> isPredictionStale 108000000 (Some 104400000) 24"
    "isPredictionStale 108000000 (Some 0) 24"
    by (simp_all add: isPredictionStale_def hoursBetween_def)
  have p: "project (freshAndStale ! 0) = ''demo''" "project (freshAndStale ! 1) = ''demo''"
    "lastPredicted (freshAndStale ! 0) = Some 104400000"
    "lastPredicted (freshAndStale ! 1) = Some 0"
    "freshAndStale ! 0 = predictedAt ''fresh'' (Some 104400000)"
    "0 < length freshAndStale" "1 < length freshAndStale"
    by (simp_all add: freshAndStale_def predictedAt_def exampleSnapshot_def)
  have f: "filter (\<lambda>s. project s = ''demo''
                        \<and> isPredictionStale 108000000 (lastPredicted s) 24) freshAndStale
             = [predictedAt ''stale'' (Some 0)]"
    using s by (simp add: freshAndStale_def predictedAt_def exampleSnapshot_def)
  from inst f have c: "fst (updateProjectPredictions 108000000 freshAndStale ''demo'' 24) = 1"
    by simp
  from inst have rows: "\<forall>k < length freshAndStale.
         snd (updateProjectPredictions 108000000 freshAndStale ''demo'' 24) ! k =
           (if project (freshAndStale ! k) = ''demo''
               \<and> isPredictionStale 108000000 (lastPredicted (freshAndStale ! k)) 24
            then (freshAndStale ! k)
                   \<lparr>predictionScore :=
                      Some (calculatePredictionScore 108000000 freshAndStale (freshAndStale ! k)),
                    lastPredicted := Some 108000000,
                    propagationReasons :=
                      calculatePropagationReasons 108000000 (freshAndStale ! k)\<rparr>
            else freshAndStale ! k)"
    by blast
  from rows p s
  have r0: "snd (updateProjectPredictions 108000000 freshAndStale ''demo'' 24) ! 0
              = predictedAt ''fresh'' (Some 104400000)"
    by simp
  from rows p s
  have r1: "lastPredicted (snd (updateProjectPredictions 108000000 freshAndStale ''demo'' 24) ! 1)
              = Some 108000000"
    by simp
  from s c r0 r1 show ?thesis
    by blast
qed

section \<open>Memory statistics\<close>

lemma countTier_fields:
  "total' (countTier st c) = total' st
   \<and> active (countTier st c) = active st + (if tierOf c = Some ACTIVE then 1 else 0)
   \<and> recent (countTier st c) = recent st + (if tierOf c = Some RECENT then 1 else 0)
   \<and> archived (countTier st c) = archived st + (if tierOf c = Some ARCHIVED then 1 else 0)
   \<and> expired (countTier st c) = expired st + (if tierOf c = Some EXPIRED then 1 else 0)"
  by (simp add: countTier_def split: option.split MemoryTier.split)

lemma foldl_countTier:
  "foldl countTier st cs =
     \<lparr>total' = total' st,
      active = active st + length (filter (\<lambda>s. tierOf s = Some ACTIVE) cs),
      recent = recent st + length (filter (\<lambda>s. tierOf s = Some RECENT) cs),
      archived = archived st + length (filter (\<lambda>s. tierOf s = Some ARCHIVED) cs),
      expired = expired st + length (filter (\<lambda>s. tierOf s = Some EXPIRED) cs)\<rparr>"
proof (induction cs arbitrary: st)
  case Nil
  show ?case by simp
next
  case (Cons c cs)
  have "foldl countTier st (c # cs) = foldl countTier (countTier st c) cs"
    by simp
  also note Cons.IH[of "countTier st c"]
  finally show ?case
    by (simp add: countTier_fields)
qed

lemma getMemoryStats_counts:
  "getMemoryStats store proj =
     (let contexts = findByProject store proj (Some 1000) in
      \<lparr>total' = length contexts,
       active = length (filter (\<lambda>s. tierOf s = Some ACTIVE) contexts),
       recent = length (filter (\<lambda>s. tierOf s = Some RECENT) contexts),
       archived = length (filter (\<lambda>s. tierOf s = Some ARCHIVED) contexts),
       expired = length (filter (\<lambda>s. tierOf s = Some EXPIRED) contexts)\<rparr>)"
  by (simp add: getMemoryStats_def Let_def foldl_countTier)

lemma findByProject_count:
  assumes "length (filter (\<lambda>s. project s = proj) store) \<le> n"
  shows "length (filter P (findByProject store proj (Some n)))
           = length (filter P (filter (\<lambda>s. project s = proj) store))"
proof -
  let ?xs = "filter (\<lambda>s. project s = proj) store"
  have "findByProject store proj (Some n) = sort_key (\<lambda>s. - timestamp s) ?xs"
    using assms by (simp add: findByProject_def limitRows_def)
  then show ?thesis
    by (simp add: filter_sort)
qed

text \<open>
  The claim C5 as stated fails: a snapshot stored as ACTIVE and last accessed 100 hours
  ago is counted as active, where the recomputed histogram counts it as archived.
\<close>

theorem C5_stale_tier_counterexample:
  "\<not> (\<forall>now store proj. getMemoryStats store proj = getStats_spec now store proj)"
proof
  assume "\<forall>now store proj. getMemoryStats store proj = getStats_spec now store proj"
  then have "getMemoryStats [staleActive] ''demo'' = getStats_spec 360000000 [staleActive] ''demo''"
    by blast
  moreover have "active (getMemoryStats [staleActive] ''demo'') = 1"
    by (simp add: getMemoryStats_def findByProject_def limitRows_def countTier_def tierOf_def
        staleActive_def exampleSnapshot_def)
  moreover have "active (getStats_spec 360000000 [staleActive] ''demo'') = 0"
    by (simp add: getStats_spec_def recomputedTierCount_def calculateMemoryTier_def
        hoursBetween_def lastAccessedOf_def staleActive_def exampleSnapshot_def)
  ultimately show False
    by simp
qed

text \<open>
  Claim C5, amended.  \<open>getMemoryStats\<close> reports, for the snapshots that
  \<open>findByProject(project, 1000)\<close> returns, their number as the total and, per tier, the
  number of those whose stored \<open>memory.tier\<close> is that tier; nothing is recomputed.  The
  report agrees with the recomputed histogram of the specification when the project has
  at most 1000 snapshots and the stored tier of each of them is the tier computed from
  \<open>(lastAccessed, now)\<close>.
\<close>

theorem C5_getMemoryStats_counts_stored_tiers:
  "getMemoryStats store proj =
     (let contexts = findByProject store proj (Some 1000) in
      \<lparr>total' = length contexts,
       active = length (filter (\<lambda>s. tierOf s = Some ACTIVE) contexts),
       recent = length (filter (\<lambda>s. tierOf s = Some RECENT) contexts),
       archived = length (filter (\<lambda>s. tierOf s = Some ARCHIVED) contexts),
       expired = length (filter (\<lambda>s. tierOf s = Some EXPIRED) contexts)\<rparr>)
   \<and> (length (filter (\<lambda>s. project s = proj) store) \<le> 1000
        \<and> (\<forall>s \<in> set store. project s = proj
               \<longrightarrow> tierOf s = Some (calculateMemoryTier (lastAccessedOf s) now))
        \<longrightarrow> getMemoryStats store proj = getStats_spec now store proj)"
proof -
  have agree: "getMemoryStats store proj = getStats_spec now store proj"
    if small: "length (filter (\<lambda>s. project s = proj) store) \<le> 1000"
      and fresh: "\<forall>s \<in> set store. project s = proj
               \<longrightarrow> tierOf s = Some (calculateMemoryTier (lastAccessedOf s) now)"
  proof -
    let ?xs = "filter (\<lambda>s. project s = proj) store"
    have cnt: "length (filter (\<lambda>s. tierOf s = Some t) (findByProject store proj (Some 1000)))
            = recomputedTierCount now ?xs t" for t
    proof -
      have "filter (\<lambda>s. tierOf s = Some t) ?xs
              = filter (\<lambda>s. calculateMemoryTier (lastAccessedOf s) now = t) ?xs"
        using fresh by (intro filter_cong) auto
      then show ?thesis
        using findByProject_count[OF small] by (simp add: recomputedTierCount_def)
    qed
    have tot: "length (findByProject store proj (Some 1000)) = length ?xs"
      using findByProject_count[OF small, of "\<lambda>_. True"] by simp
    show ?thesis
      by (simp add: getMemoryStats_counts getStats_spec_def Let_def cnt tot)
  qed
  from getMemoryStats_counts agree show ?thesis
    by blast
qed

text \<open>
  Half an hour after its last access the stored tier of that snapshot is up to date, and
  the two histograms agree.
\<close>

theorem C5_up_to_date_witness:
  "getMemoryStats [staleActive] ''demo''
     = \<lparr>total' = 1, active = 1, recent = 0, archived = 0, expired = 0\<rparr>
   \<and> getMemoryStats [staleActive] ''demo'' = getStats_spec 1800000 [staleActive] ''demo''"
proof -
  have f: "findByProject [staleActive] ''demo'' (Some 1000) = [staleActive]"
    by (simp add: findByProject_def limitRows_def staleActive_def exampleSnapshot_def)
  have t: "tierOf staleActive = Some ACTIVE"
    by (simp add: tierOf_def staleActive_def)
  have h: "length (filter (\<lambda>s. project s = ''demo'') [staleActive]) \<le> 1000"
    "\<forall>s \<in> set [staleActive]. project s = ''demo''
               \<longrightarrow> tierOf s = Some (calculateMemoryTier (lastAccessedOf s) 1800000)"
    by (simp_all add: tierOf_def lastAccessedOf_def calculateMemoryTier_def hoursBetween_def
        staleActive_def exampleSnapshot_def)
  note inst = C5_getMemoryStats_counts_stored_tiers[of "[staleActive]" "''demo''" 1800000]
  from inst f t have a: "getMemoryStats [staleActive] ''demo''
     = \<lparr>total' = 1, active = 1, recent = 0, archived = 0, expired = 0\<rparr>"
    by simp
  from inst h have b: "getMemoryStats [staleActive] ''demo''
     = getStats_spec 1800000 [staleActive] ''demo''"
    by blast
  from a b show ?thesis
    by blast
qed

section \<open>Pruning\<close>


















lemma prune_nulls_first_example:
  "prunedRows (Some 1) [agedRow ''E5'' EXPIRED (Some 5) 0, agedRow ''E0'' EXPIRED None 0]
     = [agedRow ''E0'' EXPIRED None 0]"
  by (simp add: pruneVictims_def prunedRows_def limitRows_def isExpiredRow_def tierOf_def
      lastAccessedOf_def agedRow_def exampleSnapshot_def enumerate_eq_zip)








end
